theory Spec2Isabelle
  imports Main "HOL-Library.Sublist"
begin

section \<open>Python strings\<close>

text \<open>
  A Python \<open>str\<close> is a sequence of Unicode code points. The labels and messages of
  \<open>MATF.py\<close> contain emoji, and \<open>str.strip\<close> tests code points, so a string is a
  list of code points. \<open>ustr\<close> turns an ASCII literal into such a list; a code point
  outside ASCII is written as a number.
\<close>

type_synonym pystr = "nat list"

definition ustr :: "string \<Rightarrow> pystr" where
  "ustr s = map of_char s"

text \<open>\<open>sep.join(xs)\<close>\<close>

fun join :: "pystr \<Rightarrow> pystr list \<Rightarrow> pystr" where
  "join sep [] = []"
| "join sep [x] = x"
| "join sep (x # y # ys) = x @ sep @ join sep (y # ys)"

text \<open>
  \<open>str.isspace\<close> on one code point, as CPython's \<open>_PyUnicode_IsWhitespace\<close> lists them,
  and \<open>str.strip()\<close> with no argument, which removes such code points from both ends.
\<close>

definition py_isspace :: "nat \<Rightarrow> bool" where
  "py_isspace c \<longleftrightarrow>
     c \<in> set [0x09, 0x0A, 0x0B, 0x0C, 0x0D, 0x1C, 0x1D, 0x1E, 0x1F, 0x20, 0x85, 0xA0,
              0x1680, 0x2000, 0x2001, 0x2002, 0x2003, 0x2004, 0x2005, 0x2006, 0x2007,
              0x2008, 0x2009, 0x200A, 0x2028, 0x2029, 0x202F, 0x205F, 0x3000]"

definition py_strip :: "pystr \<Rightarrow> pystr" where
  "py_strip s = rev (dropWhile py_isspace (rev (dropWhile py_isspace s)))"

section \<open>Agent definitions (lines 31-91)\<close>

datatype tool = GoogleSearchTools | HackerNewsTools

record agent =
  name :: pystr
  role :: pystr
  model :: pystr
  tools :: "tool list"
  instructions :: pystr
  show_tool_calls :: bool
  markdown :: bool

definition news_analyst :: agent where
  "news_analyst = \<lparr>
     name = [0x1F4F0] @ ustr '' News Analyst'',
     role = ustr ''Track recent news on sustainability initiatives'',
     model = ustr ''qwen/qwen3-32b'',
     tools = [GoogleSearchTools],
     instructions = ustr ''Find the most relevant city-level green projects from the past year and summarize key findings.'',
     show_tool_calls = True,
     markdown = True \<rparr>"

definition data_analyst :: agent where
  "data_analyst = \<lparr>
     name = [0x1F4CA] @ ustr '' Data Analyst'',
     role = ustr ''Analyze environmental datasets'',
     model = ustr ''qwen/qwen3-32b'',
     tools = [],
     instructions = ustr ''Read the provided air quality dataset and summarize trends.'',
     show_tool_calls = False,
     markdown = True \<rparr>"

definition policy_reviewer :: agent where
  "policy_reviewer = \<lparr>
     name = [0x1F4DC] @ ustr '' Policy Reviewer'',
     role = ustr ''Summarize government sustainability policies'',
     model = ustr ''qwen/qwen3-32b'',
     tools = [GoogleSearchTools],
     instructions = ustr ''Find official city government sources and summarize their recent sustainability policy changes.'',
     show_tool_calls = True,
     markdown = True \<rparr>"

definition innovation_scout :: agent where
  "innovation_scout = \<lparr>
     name = [0x1F4A1] @ ustr '' Innovations Scout'',
     role = ustr ''Discover cutting-edge green tech ideas'',
     model = ustr ''qwen/qwen3-32b'',
     tools = [HackerNewsTools, GoogleSearchTools],
     instructions = ustr ''Search for innovative urban sustainability technologies and describe them in detail.'',
     show_tool_calls = True,
     markdown = True \<rparr>"

text \<open>
  The orchestration library accepts agents and teams as members of a team, and the page
  runs either an agent or the team, so both are one type with two constructors.
\<close>

datatype runnable = Agent agent | Team team_rec
and team_rec = TeamRec
  (team_name : pystr)
  (mode : pystr)
  (team_model : pystr)
  (members : "runnable list")
  (team_instructions : "pystr list")
  (team_show_tool_calls : bool)
  (team_markdown : bool)

definition sustainability_team :: team_rec where
  "sustainability_team = TeamRec
     ([0x1F310] @ ustr '' Sustainability Task Force'')
     (ustr ''collaborate'')
     (ustr ''qwen/qwen3-32b'')
     [Agent news_analyst, Agent data_analyst, Agent policy_reviewer, Agent innovation_scout]
     [ustr ''Collaborate to produce a comprehensive sustainability proposal for the city.'']
     True
     True"


section \<open>Map agent choice (lines 175-212)\<close>

definition label_news :: pystr where
  "label_news = [0x1F4F0] @ ustr '' News Analyst''"

definition label_data :: pystr where
  "label_data = [0x1F4CA] @ ustr '' Data Analyst''"

definition label_policy :: pystr where
  "label_policy = [0x1F4DC] @ ustr '' Policy Reviewer''"

definition label_scout :: pystr where
  "label_scout = [0x1F4A1] @ ustr '' Innovations Scout''"

definition label_team :: pystr where
  "label_team = [0x1F310] @ ustr '' Full Task Force''"

text \<open>The options of the sidebar radio, in the order of line 177.\<close>

definition radio_options :: "pystr list" where
  "radio_options = [label_news, label_data, label_policy, label_scout, label_team]"

text \<open>The three variables the \<open>if/elif/else\<close> chain assigns.\<close>

record selection =
  selected_agent :: runnable
  banner_class :: pystr
  banner_icon :: pystr

definition map_agent_choice :: "pystr \<Rightarrow> selection" where
  "map_agent_choice agent_choice =
     (if agent_choice = label_news then
        \<lparr> selected_agent = Agent news_analyst,
          banner_class = ustr ''news-analyst-banner'',
          banner_icon = [0x1F4F0] \<rparr>
      else if agent_choice = label_data then
        \<lparr> selected_agent = Agent data_analyst,
          banner_class = ustr ''data-analyst-banner'',
          banner_icon = [0x1F4CA] \<rparr>
      else if agent_choice = label_policy then
        \<lparr> selected_agent = Agent policy_reviewer,
          banner_class = ustr ''policy-reviewer-banner'',
          banner_icon = [0x1F4DC] \<rparr>
      else if agent_choice = label_scout then
        \<lparr> selected_agent = Agent innovation_scout,
          banner_class = ustr ''innovation-scout-banner'',
          banner_icon = [0x1F4A1] \<rparr>
      else
        \<lparr> selected_agent = Team sustainability_team,
          banner_class = ustr ''sustainability-team-banner'',
          banner_icon = [0x1F310] \<rparr>)"

section \<open>Exceptions\<close>

text \<open>
  A raised exception, as far as the page can tell exceptions apart: its class name,
  whether it is an instance of \<open>Exception\<close> (what \<open>except Exception\<close> tests;
  \<open>KeyboardInterrupt\<close>, \<open>SystemExit\<close>, \<open>GeneratorExit\<close> and
  \<open>asyncio.CancelledError\<close> derive from \<open>BaseException\<close> only), and what
  \<open>str(e)\<close> does. \<open>Raised\<close> is an exception whose \<open>__str__\<close> returns the string
  \<open>exn_str\<close>; \<open>Unprintable\<close> is one whose \<open>__str__\<close> raises the exception
  \<open>str_raises\<close> instead of returning.
\<close>

datatype pyexn =
    Raised (exn_class : pystr) (is_Exception : bool) (exn_str : pystr)
  | Unprintable (exn_class : pystr) (is_Exception : bool) (str_raises : pyexn)

text \<open>\<open>str(e)\<close>, which an f-string with the field \<open>{e}\<close> calls: the string, or the exception raised.\<close>

fun py_str :: "pyexn \<Rightarrow> pyexn + pystr" where
  "py_str (Raised c b s) = Inr s"
| "py_str (Unprintable c b e) = Inl e"

definition TypeError :: "pystr \<Rightarrow> pyexn" where
  "TypeError msg = Raised (ustr ''TypeError'') True msg"

definition FileNotFoundError :: "pystr \<Rightarrow> pyexn" where
  "FileNotFoundError msg = Raised (ustr ''FileNotFoundError'') True msg"

definition EmptyDataError :: "pystr \<Rightarrow> pyexn" where
  "EmptyDataError msg = Raised (ustr ''EmptyDataError'') True msg"

definition ParserError :: "pystr \<Rightarrow> pyexn" where
  "ParserError msg = Raised (ustr ''ParserError'') True msg"

definition KeyboardInterrupt :: pyexn where
  "KeyboardInterrupt = Raised (ustr ''KeyboardInterrupt'') False []"

section \<open>Load environment variables (lines 17-18)\<close>

type_synonym environ = "pystr \<rightharpoonup> pystr"

text \<open>
  \<open>load_dotenv()\<close> adds the variables of the \<open>.env\<close> file that the process
  environment does not define yet. The parsed file is the argument \<open>dotenv\<close>.
\<close>

definition load_dotenv :: "environ \<Rightarrow> environ \<Rightarrow> environ" where
  "load_dotenv dotenv env = dotenv ++ env"

definition os_getenv :: "environ \<Rightarrow> pystr \<Rightarrow> pystr option" where
  "os_getenv env k = env k"

text \<open>
  \<open>os.environ[k] = v\<close>: the mapping encodes the value and raises
  \<open>TypeError("str expected, not NoneType")\<close> when the value is \<open>None\<close>.
\<close>

definition environ_setitem :: "environ \<Rightarrow> pystr \<Rightarrow> pystr option \<Rightarrow> pyexn + environ" where
  "environ_setitem env k v =
     (case v of
        None \<Rightarrow> Inl (TypeError (ustr ''str expected, not NoneType''))
      | Some s \<Rightarrow> Inr (env(k \<mapsto> s)))"

definition GROQ_API_KEY :: pystr where
  "GROQ_API_KEY = ustr ''GROQ_API_KEY''"

definition load_environment :: "environ \<Rightarrow> environ \<Rightarrow> pyexn + environ" where
  "load_environment dotenv env =
     (let env1 = load_dotenv dotenv env
      in environ_setitem env1 GROQ_API_KEY (os_getenv env1 GROQ_API_KEY))"

section \<open>Example dataset (lines 21-28)\<close>

text \<open>
  The file system maps a path to the text of the file there. \<open>here\<close> is the directory
  of the script, \<open>Path(__file__).parent\<close>.
\<close>

type_synonym filesystem = "pystr \<rightharpoonup> pystr"

definition data_path :: "pystr \<Rightarrow> pystr" where
  "data_path here = here @ ustr ''/sample_air_quality.csv''"

text \<open>A table built from a dict of integer columns, as \<open>df_mock\<close> is.\<close>

type_synonym int_frame = "(pystr \<times> int list) list"

definition df_mock :: int_frame where
  "df_mock =
     [(ustr ''Year'', [2021, 2022, 2023]),
      (ustr ''PM2.5'', [55, 48, 42]),
      (ustr ''CO2'', [400, 395, 390])]"

text \<open>\<open>str(n)\<close> for an integer.\<close>

fun str_nat :: "nat \<Rightarrow> pystr" where
  "str_nat n = (if n < 10 then [48 + n] else str_nat (n div 10) @ [48 + n mod 10])"

declare str_nat.simps [simp del]

definition str_int :: "int \<Rightarrow> pystr" where
  "str_int i = (if i < 0 then 45 # str_nat (nat (- i)) else str_nat (nat i))"

text \<open>
  \<open>DataFrame.to_csv(path, index=False)\<close> on a table of integer columns of one
  length: the header line, then one line per row, fields separated by commas, each
  line ended by a line feed.
\<close>

definition csv_line :: "pystr list \<Rightarrow> pystr" where
  "csv_line cells = join (ustr '','') cells @ [0x0A]"

definition to_csv :: "int_frame \<Rightarrow> pystr" where
  "to_csv df =
     csv_line (map fst df) @
     concat (map (\<lambda>r. csv_line (map str_int r)) (transpose (map snd df)))"

text \<open>
  The guarded write of lines 22-28. The result is the file system afterwards and the
  list of paths written.
\<close>

definition ensure_dataset :: "pystr \<Rightarrow> filesystem \<Rightarrow> filesystem \<times> pystr list" where
  "ensure_dataset here fs =
     (if fs (data_path here) = None
      then (fs(data_path here \<mapsto> to_csv df_mock), [data_path here])
      else (fs, []))"

section \<open>The table library\<close>

text \<open>
  \<open>analyze_dataset\<close> calls pandas, which is not part of the repository. The calls it
  makes are the fields of a record, so that every statement about the page holds for
  any behaviour of the library:
  \<^item> \<open>read_csv\<close>: \<open>pd.read_csv(path)\<close>, which raises on a missing or unreadable file;
  \<^item> \<open>columns\<close>: the labels of \<open>df.columns\<close>;
  \<^item> \<open>describe_to_string\<close>: \<open>df.describe(include='all').to_string()\<close>, which may
    raise as any call of the library may;
  \<^item> \<open>mean_2f\<close>: \<open>f"{df[c].mean():.2f}"\<close> for a column label \<open>c\<close>. The mean is a
    floating-point number and raises \<open>TypeError\<close> on a column of text.
\<close>

record 'df pandas =
  read_csv :: "filesystem \<Rightarrow> pystr \<Rightarrow> pyexn + 'df"
  columns :: "'df \<Rightarrow> pystr list"
  describe_to_string :: "'df \<Rightarrow> pyexn + pystr"
  mean_2f :: "'df \<Rightarrow> pystr \<Rightarrow> pyexn + pystr"

subsection \<open>A reference reader for plain files\<close>

text \<open>
  A reader for the files the page writes and for files of the same plain shape: lines
  ended by a line feed, fields separated by commas, no quoting, every field either a
  decimal integer, empty, or a word that is not a number. It is used to evaluate the
  page on concrete files. Floating-point literals, missing-value markers and quoted
  fields are outside it.
\<close>

fun split_on :: "nat \<Rightarrow> pystr \<Rightarrow> pystr list" where
  "split_on d [] = [[]]"
| "split_on d (c # cs) =
     (if c = d then [] # split_on d cs
      else (case split_on d cs of
              [] \<Rightarrow> [[c]]
            | r # rs \<Rightarrow> (c # r) # rs))"

record frame =
  header :: "pystr list"
  body :: "pystr list list"

definition parse_csv_text :: "pystr \<Rightarrow> pyexn + frame" where
  "parse_csv_text text =
     (case filter (\<lambda>l. l \<noteq> []) (split_on 0x0A text) of
        [] \<Rightarrow> Inl (EmptyDataError (ustr ''No columns to parse from file''))
      | h # ls \<Rightarrow>
          Inr \<lparr> header = split_on 0x2C h, body = map (split_on 0x2C) ls \<rparr>)"

definition ref_read_csv :: "filesystem \<Rightarrow> pystr \<Rightarrow> pyexn + frame" where
  "ref_read_csv fs path =
     (case fs path of
        None \<Rightarrow> Inl (FileNotFoundError path)
      | Some text \<Rightarrow> parse_csv_text text)"

definition is_digit :: "nat \<Rightarrow> bool" where
  "is_digit c \<longleftrightarrow> 48 \<le> c \<and> c \<le> 57"

definition nat_of_digits :: "pystr \<Rightarrow> nat" where
  "nat_of_digits ds = foldl (\<lambda>a c. 10 * a + (c - 48)) 0 ds"

definition parse_int :: "pystr \<Rightarrow> int option" where
  "parse_int s =
     (case s of
        [] \<Rightarrow> None
      | c # cs \<Rightarrow>
          if c = 45 \<and> cs \<noteq> [] \<and> list_all is_digit cs then Some (- int (nat_of_digits cs))
          else if list_all is_digit s then Some (int (nat_of_digits s))
          else None)"

text \<open>The fields of the column labelled \<open>c\<close>, top to bottom; a short row has none.\<close>

definition column_cells :: "frame \<Rightarrow> pystr \<Rightarrow> pystr list option" where
  "column_cells df c =
     (case find (\<lambda>i. header df ! i = c) [0 ..< length (header df)] of
        None \<Rightarrow> None
      | Some i \<Rightarrow> Some (map (\<lambda>r. if i < length r then r ! i else []) (body df)))"

text \<open>
  The mean of a column: empty fields are skipped, a field of text makes pandas raise
  \<open>TypeError\<close>. The floating-point rendering of the mean of the integers is the
  argument \<open>fmt\<close>.
\<close>

definition ref_mean_2f :: "(int list \<Rightarrow> pystr) \<Rightarrow> frame \<Rightarrow> pystr \<Rightarrow> pyexn + pystr" where
  "ref_mean_2f fmt df c =
     (case column_cells df c of
        None \<Rightarrow> Inl (Raised (ustr ''KeyError'') True c)
      | Some cells \<Rightarrow>
          (let present = filter (\<lambda>x. x \<noteq> []) cells
           in if list_all (\<lambda>x. parse_int x \<noteq> None) present
              then Inr (fmt (map (\<lambda>x. the (parse_int x)) present))
              else Inl (TypeError (ustr ''Could not convert '' @ concat present @ ustr '' to numeric''))))"

definition ref_pandas :: "(frame \<Rightarrow> pystr) \<Rightarrow> (int list \<Rightarrow> pystr) \<Rightarrow> frame pandas" where
  "ref_pandas describe fmt =
     \<lparr> read_csv = ref_read_csv,
       columns = header,
       describe_to_string = (\<lambda>df. Inr (describe df)),
       mean_2f = ref_mean_2f fmt \<rparr>"

section \<open>analyze_dataset (lines 41-50)\<close>

definition col_pm25 :: pystr where
  "col_pm25 = ustr ''PM2.5''"

definition col_co2 :: pystr where
  "col_co2 = ustr ''CO2''"

definition pm25_line :: "pystr \<Rightarrow> pystr" where
  "pm25_line m =
     [0x1F32B, 0xFE0F] @ ustr '' **Average PM2.5:** '' @ m @ ustr '' '' @ [0x3BC] @ ustr ''g/m'' @ [0xB3]"

definition co2_line :: "pystr \<Rightarrow> pystr" where
  "co2_line m = [0x1F30D] @ ustr '' **Average CO2:** '' @ m @ ustr '' ppm''"

text \<open>The returned f-string of line 50, from the summary and the list \<open>trends\<close>.\<close>

definition report :: "pystr \<Rightarrow> pystr list \<Rightarrow> pystr" where
  "report summary trends =
     [0x1F4CA] @ ustr '' **Dataset Summary:**'' @ [0x0A] @ ustr ''```'' @ [0x0A] @
     summary @ [0x0A] @ ustr ''```'' @ [0x0A, 0x0A] @
     ustr ''**Environmental Trends:**'' @ [0x0A] @ join [0x0A] trends"

text \<open>
  The list \<open>trends\<close> after lines 44-48: each \<open>if\<close> appends one line when its column is
  there, and the mean it formats may raise.
\<close>

definition trend_lines :: "'df pandas \<Rightarrow> 'df \<Rightarrow> pyexn + pystr list" where
  "trend_lines pd df =
     (case (if col_pm25 \<in> set (columns pd df)
            then (case mean_2f pd df col_pm25 of
                    Inl e \<Rightarrow> Inl e
                  | Inr m \<Rightarrow> Inr [pm25_line m])
            else Inr []) of
        Inl e \<Rightarrow> Inl e
      | Inr trends1 \<Rightarrow>
          (if col_co2 \<in> set (columns pd df)
           then (case mean_2f pd df col_co2 of
                   Inl e \<Rightarrow> Inl e
                 | Inr m \<Rightarrow> Inr (trends1 @ [co2_line m]))
           else Inr trends1))"

definition analyze_dataset :: "'df pandas \<Rightarrow> filesystem \<Rightarrow> pystr \<Rightarrow> pyexn + pystr" where
  "analyze_dataset pd fs here =
     (case read_csv pd fs (data_path here) of
        Inl e \<Rightarrow> Inl e
      | Inr df \<Rightarrow>
          (case describe_to_string pd df of
             Inl e \<Rightarrow> Inl e
           | Inr summary \<Rightarrow>
               (case trend_lines pd df of
                  Inl e \<Rightarrow> Inl e
                | Inr trends \<Rightarrow> Inr (report summary trends))))"

section \<open>Launch Mission (lines 221-247)\<close>

text \<open>
  What \<open>selected_agent.run(topic)\<close> returns, as far as the page looks at it. \<open>truth\<close> is
  what the truth test \<open>bool(result)\<close> of line 236 does: it returns \<open>True\<close> or \<open>False\<close>
  (\<open>None\<close> and an object whose \<open>__bool__\<close> or \<open>__len__\<close> says so are false), or the
  object's \<open>__bool__\<close> raises. \<open>content_attr\<close> is the attribute \<open>content\<close> when the
  object has one, so \<open>hasattr(result, "content")\<close> is \<open>content_attr result \<noteq> None\<close>. The
  content is a string or \<open>None\<close>, the default of the library's response class.
\<close>

datatype pyval = PyStr pystr | PyNone

datatype run_result = RunResult (truth : "pyexn + bool") (content_attr : "pyval option")

definition truthy :: "run_result \<Rightarrow> bool" where
  "truthy r \<longleftrightarrow> truth r = Inr True"

definition falsy :: "run_result \<Rightarrow> bool" where
  "falsy r \<longleftrightarrow> truth r = Inr False"

definition None_result :: run_result where
  "None_result = RunResult (Inr False) None"

text \<open>\<open>f"{v}"\<close>\<close>

fun format_val :: "pyval \<Rightarrow> pystr" where
  "format_val (PyStr s) = s"
| "format_val PyNone = ustr ''None''"

text \<open>
  What the page does that can be observed from outside: the calls to the user-interface
  library, the external run call and the read of the dataset, in the order they happen.
\<close>

datatype effect =
    St_info pystr
  | St_spinner pystr
  | St_markdown pystr
  | St_warning pystr
  | St_error pystr
  | Agent_run runnable pystr
  | Read_csv pystr

text \<open>
  The inputs of one run of the handler: the widget values, the clock reading of
  \<open>datetime.now().strftime(...)\<close>, the external run contract, the table library, the
  file system and the directory of the script. The run contract has two parts, both
  functions of the receiver and the topic: \<open>run\<close> is what the call returns or raises,
  and \<open>run_effect\<close> is what the call does to the team object, which it can reach as
  its receiver or through the agents that are the team's members. The library that
  implements the call is not part of the repository, so both are arguments.
\<close>

record 'df inputs =
  agent_choice :: pystr
  topic :: pystr
  clock :: pystr
  run :: "runnable \<Rightarrow> pystr \<Rightarrow> pyexn + run_result"
  run_effect :: "runnable \<Rightarrow> pystr \<Rightarrow> team_rec \<Rightarrow> team_rec"
  pd :: "'df pandas"
  files :: filesystem
  here :: pystr

text \<open>The two f-strings of the report block (lines 230-231 and 238-239).\<close>

definition report_html :: "selection \<Rightarrow> pystr \<Rightarrow> pystr \<Rightarrow> pystr" where
  "report_html sel choice text =
     ustr ''<div class='' @ [0x27] @ ustr ''banner '' @ banner_class sel @ [0x27] @ ustr ''>'' @
     banner_icon sel @ ustr '' '' @ choice @ ustr '' Report</div>'' @
     ustr ''<div class='' @ [0x27] @ ustr ''agent-box'' @ [0x27] @ ustr ''>'' @ text @ ustr ''</div>''"

definition no_content_warning :: pystr where
  "no_content_warning = [0x26A0, 0xFE0F] @ ustr '' No content returned from the agent.''"

definition missing_topic_warning :: pystr where
  "missing_topic_warning = [0x270F, 0xFE0F] @ ustr '' Please specify your mission target first.''"

text \<open>The f-string of line 245, given the string that \<open>str(e)\<close> returned.\<close>

definition mission_error :: "pystr \<Rightarrow> pystr" where
  "mission_error description = [0x1F4A5] @ ustr '' Mission Error: '' @ description"

text \<open>
  The body of the \<open>try\<close> (lines 227-243): the effects it performed, and the exception it
  raised if it did not complete. The truth test of line 236 runs inside the \<open>try\<close>, so
  an exception it raises is one of them.
\<close>

definition try_body :: "'df inputs \<Rightarrow> effect list \<times> pyexn option" where
  "try_body i =
     (let sel = map_agent_choice (agent_choice i)
      in if agent_choice i = label_data then
           (case analyze_dataset (pd i) (files i) (here i) of
              Inl e \<Rightarrow> ([Read_csv (data_path (here i))], Some e)
            | Inr result_text \<Rightarrow>
                ([Read_csv (data_path (here i)),
                  St_markdown (report_html sel (agent_choice i) result_text)], None))
         else
           (case run i (selected_agent sel) (topic i) of
              Inl e \<Rightarrow> ([Agent_run (selected_agent sel) (topic i)], Some e)
            | Inr result \<Rightarrow>
                (case truth result of
                   Inl e \<Rightarrow> ([Agent_run (selected_agent sel) (topic i)], Some e)
                 | Inr t \<Rightarrow>
                     (if t \<and> content_attr result \<noteq> None then
                        ([Agent_run (selected_agent sel) (topic i),
                          St_markdown (report_html sel (agent_choice i)
                                         (format_val (the (content_attr result))))], None)
                      else
                        ([Agent_run (selected_agent sel) (topic i),
                          St_warning no_content_warning], None)))))"

definition start_info :: "pystr \<Rightarrow> pystr" where
  "start_info mission_time =
     [0x1F4C5] @ ustr '' Mission Start Time: **'' @ mission_time @ ustr ''**''"

definition deploying :: "pystr \<Rightarrow> pystr" where
  "deploying choice =
     [0x1F50D] @ ustr '' Deploying '' @ choice @ ustr ''... please stand by...''"

text \<open>
  The handler of the launch button, once the button is pressed. \<open>except Exception\<close>
  takes an exception that is an instance of \<open>Exception\<close>; any other leaves the handler,
  which is the second component of the result. The message of line 245 is built inside
  the \<open>except\<close> block, under no \<open>try\<close>: when \<open>str(e)\<close> raises, nothing is shown and
  the exception it raised leaves the handler.
\<close>

definition launch_mission :: "'df inputs \<Rightarrow> effect list \<times> pyexn option" where
  "launch_mission i =
     (if py_strip (topic i) \<noteq> [] then
        (let mission_time = clock i;
             before = [St_info (start_info mission_time),
                       St_spinner (deploying (agent_choice i))]
         in case try_body i of
              (effects, None) \<Rightarrow> (before @ effects, None)
            | (effects, Some e) \<Rightarrow>
                (if is_Exception e
                 then (case py_str e of
                         Inl e' \<Rightarrow> (before @ effects, Some e')
                       | Inr description \<Rightarrow>
                           (before @ effects @ [St_error (mission_error description)], None))
                 else (before @ effects, Some e)))
      else ([St_warning missing_topic_warning], None))"

section \<open>One run of the script\<close>

text \<open>
  The statements of the script that decide what is dispatched, in their order: the
  environment (lines 17-18), the dataset (21-28), the agents and the team (31-91), the
  mapping (193-212) and the handler (221-247). The statements that only draw the page
  (style sheet, title, sidebar, footer) are left out. The result holds the environment
  and the files afterwards, the paths written, the object of the variable
  \<open>sustainability_team\<close> as it is at the end, the effects of the handler, and the
  exception that ended the script if one did.

  No statement of the script assigns to the team or to an attribute of it after line 91,
  and the only call that hands the team or one of its members to code outside the script
  is \<open>selected_agent.run(topic)\<close>. So the team at the end is the team as built, changed
  by each run call that was made, in order.
\<close>

definition apply_runs :: "'df inputs \<Rightarrow> effect list \<Rightarrow> team_rec \<Rightarrow> team_rec" where
  "apply_runs i effects team =
     fold (\<lambda>eff t. case eff of Agent_run a s \<Rightarrow> run_effect i a s t | _ \<Rightarrow> t) effects team"

record page_result =
  environ_after :: environ
  files_after :: filesystem
  written :: "pystr list"
  team_after :: "team_rec option"
  page_effects :: "effect list"
  raised :: "pyexn option"

definition page :: "environ \<Rightarrow> environ \<Rightarrow> bool \<Rightarrow> 'df inputs \<Rightarrow> page_result" where
  "page dotenv env pressed i =
     (case load_environment dotenv env of
        Inl e \<Rightarrow>
          \<lparr> environ_after = load_dotenv dotenv env, files_after = files i, written = [],
            team_after = None, page_effects = [], raised = Some e \<rparr>
      | Inr env1 \<Rightarrow>
          (let (fs1, ws) = ensure_dataset (here i) (files i);
               team = sustainability_team;
               (effects, r) = (if pressed then launch_mission (i\<lparr>files := fs1\<rparr>) else ([], None))
           in \<lparr> environ_after = env1, files_after = fs1, written = ws,
                team_after = Some (apply_runs i effects team), page_effects = effects,
                raised = r \<rparr>))"

section \<open>Concrete inputs\<close>

text \<open>
  Stand-ins for the external parts, used where the page is evaluated on a concrete
  input: a run contract that raises a given exception, one that returns a given object,
  one that leaves the team as it is and one that, when its receiver is the team, appends
  the topic to the team's instructions, a statistics table, and the two-decimal rendering of a mean computed in
  exact arithmetic (the floating-point result is the same unless the mean lies within
  rounding error of a tie).
\<close>

definition run_raises :: "pyexn \<Rightarrow> runnable \<Rightarrow> pystr \<Rightarrow> pyexn + run_result" where
  "run_raises e a t = Inl e"

definition run_returns :: "run_result \<Rightarrow> runnable \<Rightarrow> pystr \<Rightarrow> pyexn + run_result" where
  "run_returns r a t = Inr r"

definition leaves_team :: "runnable \<Rightarrow> pystr \<Rightarrow> team_rec \<Rightarrow> team_rec" where
  "leaves_team a t team = team"


definition fake_describe :: "frame \<Rightarrow> pystr" where
  "fake_describe df = ustr ''count  '' @ str_nat (length (body df))"

definition two_digits :: "nat \<Rightarrow> pystr" where
  "two_digits n = [48 + n div 10, 48 + n mod 10]"

definition mean_2f_exact :: "int list \<Rightarrow> pystr" where
  "mean_2f_exact xs =
     (if xs = [] then ustr ''nan''
      else
        (let s = sum_list xs;
             n = length xs;
             a = 100 * nat (abs s);
             d = a div n;
             r = a mod n;
             q = (if 2 * r > n \<or> (2 * r = n \<and> odd d) then d + 1 else d)
         in (if s < 0 \<and> q \<noteq> 0 then [45] else []) @
            str_nat (q div 100) @ [46] @ two_digits (q mod 100)))"

definition example_inputs ::
  "(runnable \<Rightarrow> pystr \<Rightarrow> pyexn + run_result) \<Rightarrow> pystr \<Rightarrow> pystr \<Rightarrow> filesystem \<Rightarrow> frame inputs" where
  "example_inputs r choice t fs =
     \<lparr> agent_choice = choice,
       topic = t,
       clock = ustr ''2025-01-01 12:00:00'',
       run = r,
       run_effect = leaves_team,
       pd = ref_pandas fake_describe mean_2f_exact,
       files = fs,
       here = ustr ''/app'' \<rparr>"

text \<open>A dataset whose particulate column holds words instead of numbers.\<close>

definition words_csv :: pystr where
  "words_csv = ustr ''Year,PM2.5'' @ [0x0A] @ ustr ''2021,high'' @ [0x0A] @ ustr ''2022,low'' @ [0x0A]"

text \<open>A dataset without the CO2 column.\<close>

definition no_co2_csv :: pystr where
  "no_co2_csv = ustr ''Year,PM2.5'' @ [0x0A] @ ustr ''2021,55'' @ [0x0A] @ ustr ''2022,48'' @ [0x0A]"

text \<open>The table that this file holds.\<close>

definition no_co2_frame :: frame where
  "no_co2_frame =
     \<lparr> header = [ustr ''Year'', ustr ''PM2.5''],
       body = [[ustr ''2021'', ustr ''55''], [ustr ''2022'', ustr ''48'']] \<rparr>"

text \<open>The table that the file written by \<open>ensure_dataset\<close> holds.\<close>

definition mock_frame :: frame where
  "mock_frame =
     \<lparr> header = [ustr ''Year'', ustr ''PM2.5'', ustr ''CO2''],
       body = [[ustr ''2021'', ustr ''55'', ustr ''400''],
               [ustr ''2022'', ustr ''48'', ustr ''395''],
               [ustr ''2023'', ustr ''42'', ustr ''390'']] \<rparr>"


fun consecutive :: "int list \<Rightarrow> bool" where
  "consecutive (x # y # ys) \<longleftrightarrow> y = x + 1 \<and> consecutive (y # ys)"
| "consecutive _ \<longleftrightarrow> True"

section \<open>Supporting facts\<close>

lemmas label_defs = label_news_def label_data_def label_policy_def label_scout_def label_team_def

lemmas concrete_defs = example_inputs_def run_raises_def run_returns_def py_strip_def
  py_isspace_def ustr_def label_defs map_agent_choice_def

lemma all_dropWhile: "(\<forall>x\<in>set (dropWhile P s). P x) \<longleftrightarrow> (\<forall>x\<in>set s. P x)"
  by (induction s) auto

text \<open>A topic strips to the empty string exactly when it holds nothing but whitespace.\<close>

lemma py_strip_blank_iff: "py_strip s = [] \<longleftrightarrow> (\<forall>c\<in>set s. py_isspace c)"
  by (simp add: py_strip_def all_dropWhile)

lemma sublist_between: "sublist x (before @ x @ after)"
  unfolding sublist_def by blast

lemma sublist_mission_error: "sublist d ([0x1F4A5] @ ustr '' Mission Error: '' @ d)"
  using sublist_between [of d "[0x1F4A5] @ ustr '' Mission Error: ''" "[]"] by simp

lemma sublist_report_html: "sublist x (report_html sel choice x)"
proof -
  have "report_html sel choice x =
          (ustr ''<div class='' @ [0x27] @ ustr ''banner '' @ banner_class sel @ [0x27] @ ustr ''>'' @
           banner_icon sel @ ustr '' '' @ choice @ ustr '' Report</div>'' @
           ustr ''<div class='' @ [0x27] @ ustr ''agent-box'' @ [0x27] @ ustr ''>'') @ x @ ustr ''</div>''"
    by (simp add: report_html_def)
  then show ?thesis
    by (simp only: sublist_between)
qed


lemma launch_mission_raises:
  assumes "py_strip (topic i) \<noteq> []"
    and "try_body i = (effects, Some e)"
  shows "launch_mission i =
           (if is_Exception e
            then (case py_str e of
                    Inl e' \<Rightarrow>
                      ([St_info (start_info (clock i)), St_spinner (deploying (agent_choice i))]
                         @ effects, Some e')
                  | Inr d \<Rightarrow>
                      ([St_info (start_info (clock i)), St_spinner (deploying (agent_choice i))]
                         @ effects @ [St_error (mission_error d)], None))
            else ([St_info (start_info (clock i)), St_spinner (deploying (agent_choice i))]
                    @ effects, Some e))"
  using assms by (simp add: launch_mission_def Let_def)

section \<open>The dispatch outcomes\<close>

text \<open>
  Claim C1, as the code has it. Take a topic that is not blank, a selection other than
  the Data Analyst, and a run call that raises the exception \<open>e\<close>.
  \<^item> When \<open>e\<close> is an instance of \<open>Exception\<close> and \<open>str(e)\<close> returns the description
    \<open>d\<close>, the handler ends in the error outcome: after the start notice, the spinner and
    the run call it shows \<open>st.error\<close> with the message "Mission Error: " followed by
    \<open>d\<close>, and it returns normally, so nothing reaches the caller.
  \<^item> When \<open>e\<close> is not an instance of \<open>Exception\<close>, \<open>except Exception\<close> does not take
    it: no error is shown and \<open>e\<close> leaves the handler.
  \<^item> When \<open>e\<close> is an instance of \<open>Exception\<close> and \<open>str(e)\<close> raises \<open>e'\<close>, the
    message of line 245 is never built: no error is shown and \<open>e'\<close> leaves the handler.
\<close>

theorem run_exception_is_error_outcome:
  assumes "py_strip (topic i) \<noteq> []"
    and "agent_choice i \<noteq> label_data"
    and "run i (selected_agent (map_agent_choice (agent_choice i))) (topic i) = Inl e"
  shows "(is_Exception e \<and> py_str e = Inr d \<longrightarrow>
            launch_mission i =
              ([St_info (start_info (clock i)),
                St_spinner (deploying (agent_choice i)),
                Agent_run (selected_agent (map_agent_choice (agent_choice i))) (topic i),
                St_error ([0x1F4A5] @ ustr '' Mission Error: '' @ d)], None)
            \<and> sublist d ([0x1F4A5] @ ustr '' Mission Error: '' @ d))
         \<and> (\<not> is_Exception e \<longrightarrow>
            launch_mission i =
              ([St_info (start_info (clock i)),
                St_spinner (deploying (agent_choice i)),
                Agent_run (selected_agent (map_agent_choice (agent_choice i))) (topic i)], Some e))
         \<and> (is_Exception e \<and> py_str e = Inl e' \<longrightarrow>
            launch_mission i =
              ([St_info (start_info (clock i)),
                St_spinner (deploying (agent_choice i)),
                Agent_run (selected_agent (map_agent_choice (agent_choice i))) (topic i)], Some e'))"
proof -
  have "try_body i =
          ([Agent_run (selected_agent (map_agent_choice (agent_choice i))) (topic i)], Some e)"
    using assms by (simp add: try_body_def Let_def)
  from launch_mission_raises [OF assms(1) this] sublist_mission_error [of d] show ?thesis
    by (simp add: mission_error_def)
qed

theorem run_exception_is_error_outcome_witness:
  "launch_mission (example_inputs (run_raises (Raised (ustr ''RuntimeError'') True (ustr ''boom'')))
       label_news (ustr ''Karachi'') Map.empty) =
     ([St_info (start_info (ustr ''2025-01-01 12:00:00'')),
       St_spinner (deploying label_news),
       Agent_run (Agent news_analyst) (ustr ''Karachi''),
       St_error ([0x1F4A5] @ ustr '' Mission Error: boom'')], None)
   \<and> sublist (ustr ''boom'') ([0x1F4A5] @ ustr '' Mission Error: boom'')
   \<and> launch_mission (example_inputs (run_raises (Raised (ustr ''SystemExit'') False (ustr ''1'')))
       label_policy (ustr ''Karachi'') Map.empty) =
     ([St_info (start_info (ustr ''2025-01-01 12:00:00'')),
       St_spinner (deploying label_policy),
       Agent_run (Agent policy_reviewer) (ustr ''Karachi'')],
      Some (Raised (ustr ''SystemExit'') False (ustr ''1'')))
   \<and> launch_mission (example_inputs
         (run_raises (Unprintable (ustr ''ToolError'') True (Raised (ustr ''ValueError'') True (ustr ''bad''))))
       label_scout (ustr ''Karachi'') Map.empty) =
     ([St_info (start_info (ustr ''2025-01-01 12:00:00'')),
       St_spinner (deploying label_scout),
       Agent_run (Agent innovation_scout) (ustr ''Karachi'')],
      Some (Raised (ustr ''ValueError'') True (ustr ''bad'')))"
  using run_exception_is_error_outcome
    [of "example_inputs (run_raises (Raised (ustr ''RuntimeError'') True (ustr ''boom'')))
           label_news (ustr ''Karachi'') Map.empty"
        "Raised (ustr ''RuntimeError'') True (ustr ''boom'')" "ustr ''boom''"]
    run_exception_is_error_outcome
    [of "example_inputs (run_raises (Raised (ustr ''SystemExit'') False (ustr ''1'')))
           label_policy (ustr ''Karachi'') Map.empty"
        "Raised (ustr ''SystemExit'') False (ustr ''1'')"]
    run_exception_is_error_outcome
    [of "example_inputs
           (run_raises (Unprintable (ustr ''ToolError'') True (Raised (ustr ''ValueError'') True (ustr ''bad''))))
           label_scout (ustr ''Karachi'') Map.empty"
        "Unprintable (ustr ''ToolError'') True (Raised (ustr ''ValueError'') True (ustr ''bad''))"
        _ "Raised (ustr ''ValueError'') True (ustr ''bad'')"]
  by (simp add: concrete_defs)

text \<open>
  Claim C1 as stated fails: an exception that derives from \<open>BaseException\<close> only, such
  as \<open>KeyboardInterrupt\<close>, is not taken by \<open>except Exception\<close>. No error is shown and
  the exception leaves the handler.
\<close>

theorem base_exception_propagates_counterexample:
  "launch_mission (example_inputs (run_raises KeyboardInterrupt) label_news (ustr ''Karachi'') Map.empty) =
     ([St_info (start_info (ustr ''2025-01-01 12:00:00'')),
       St_spinner (deploying label_news),
       Agent_run (Agent news_analyst) (ustr ''Karachi'')], Some KeyboardInterrupt)"
  by (simp add: launch_mission_def try_body_def Let_def concrete_defs KeyboardInterrupt_def)




text \<open>
  Claim C3. When the topic strips to the empty string (it is empty or holds only
  whitespace, see \<open>py_strip_blank_iff\<close>), the handler does one thing for every selection:
  it shows the warning "Please specify your mission target first.". There is no run
  call, no read of the dataset and no other effect, and it returns normally.
\<close>

theorem blank_topic_no_dispatch:
  assumes "py_strip (topic i) = []"
  shows "launch_mission i = ([St_warning missing_topic_warning], None)"
  using assms by (simp add: launch_mission_def Let_def)

theorem blank_topic_no_dispatch_witness:
  "launch_mission (example_inputs (run_returns (RunResult (Inr True) (Some (PyStr (ustr ''X'')))))
       label_team [0x20, 0x0A, 0x3000, 0x09] Map.empty) =
     ([St_warning missing_topic_warning], None)"
  using blank_topic_no_dispatch
    [of "example_inputs (run_returns (RunResult (Inr True) (Some (PyStr (ustr ''X'')))))
           label_team [0x20, 0x0A, 0x3000, 0x09] Map.empty"]
  by (simp add: concrete_defs)

text \<open>
  Claim C6, as the code has it. With a topic that is not blank and a selection other than
  the Data Analyst, a run call that returns a truthy object whose \<open>content\<close> is the
  string \<open>x\<close> ends in the text outcome: the handler renders the report block whose
  agent box holds exactly \<open>x\<close>, so \<open>x\<close> is part of what is shown.
\<close>

theorem truthy_content_is_text_outcome:
  assumes "py_strip (topic i) \<noteq> []"
    and "agent_choice i \<noteq> label_data"
    and "run i (selected_agent (map_agent_choice (agent_choice i))) (topic i) = Inr r"
    and "truthy r"
    and "content_attr r = Some (PyStr x)"
  shows "launch_mission i =
           ([St_info (start_info (clock i)),
             St_spinner (deploying (agent_choice i)),
             Agent_run (selected_agent (map_agent_choice (agent_choice i))) (topic i),
             St_markdown (report_html (map_agent_choice (agent_choice i)) (agent_choice i) x)], None)
         \<and> sublist x (report_html (map_agent_choice (agent_choice i)) (agent_choice i) x)"
  using assms
  by (simp add: launch_mission_def try_body_def Let_def truthy_def sublist_report_html)

theorem truthy_content_is_text_outcome_witness:
  "launch_mission (example_inputs (run_returns (RunResult (Inr True) (Some (PyStr (ustr ''X'')))))
       label_team (ustr ''Karachi'') Map.empty) =
     ([St_info (start_info (ustr ''2025-01-01 12:00:00'')),
       St_spinner (deploying label_team),
       Agent_run (Team sustainability_team) (ustr ''Karachi''),
       St_markdown (report_html (map_agent_choice label_team) label_team (ustr ''X''))], None)"
  using truthy_content_is_text_outcome
    [of "example_inputs (run_returns (RunResult (Inr True) (Some (PyStr (ustr ''X'')))))
           label_team (ustr ''Karachi'') Map.empty"
        "RunResult (Inr True) (Some (PyStr (ustr ''X'')))" "ustr ''X''"]
  by (simp add: concrete_defs truthy_def)

text \<open>
  Claim C6 as stated fails: the guard is \<open>result and hasattr(result, "content")\<close>, so
  an object that is falsy gets the warning even though its \<open>content\<close> is \<open>"X"\<close>.
\<close>

theorem falsy_content_counterexample:
  "launch_mission (example_inputs (run_returns (RunResult (Inr False) (Some (PyStr (ustr ''X'')))))
       label_team (ustr ''Karachi'') Map.empty) =
     ([St_info (start_info (ustr ''2025-01-01 12:00:00'')),
       St_spinner (deploying label_team),
       Agent_run (Team sustainability_team) (ustr ''Karachi''),
       St_warning no_content_warning], None)"
  by (simp add: launch_mission_def try_body_def Let_def concrete_defs)

text \<open>
  Claim C10. With a topic that is not blank and a selection other than the Data Analyst,
  a run call that returns a falsy object (\<open>None\<close> for one) ends in the empty outcome,
  not in an error and not in a report, whatever the object's \<open>content\<close> is or whether
  it has one: the result does not depend on \<open>content_attr r\<close>.
\<close>

theorem falsy_result_is_empty_outcome:
  assumes "py_strip (topic i) \<noteq> []"
    and "agent_choice i \<noteq> label_data"
    and "run i (selected_agent (map_agent_choice (agent_choice i))) (topic i) = Inr r"
    and "falsy r"
  shows "launch_mission i =
           ([St_info (start_info (clock i)),
             St_spinner (deploying (agent_choice i)),
             Agent_run (selected_agent (map_agent_choice (agent_choice i))) (topic i),
             St_warning no_content_warning], None)"
  using assms by (simp add: launch_mission_def try_body_def Let_def falsy_def)

theorem falsy_result_is_empty_outcome_witness:
  "launch_mission (example_inputs (run_returns None_result) label_scout (ustr ''Karachi'') Map.empty) =
     ([St_info (start_info (ustr ''2025-01-01 12:00:00'')),
       St_spinner (deploying label_scout),
       Agent_run (Agent innovation_scout) (ustr ''Karachi''),
       St_warning no_content_warning], None)"
  using falsy_result_is_empty_outcome
    [of "example_inputs (run_returns None_result) label_scout (ustr ''Karachi'') Map.empty" None_result]
  by (simp add: concrete_defs None_result_def falsy_def)

section \<open>The selection mapping\<close>

text \<open>
  Claim C4. \<open>map_agent_choice\<close> is a function of the label alone. For every input the
  banner class and the banner icon are not empty; each of the first four labels gives
  its own agent; and every input that is none of the first four labels, the fifth label
  and any unknown value alike, gives the Full Task Force team with its banner.
\<close>

theorem map_agent_choice_total:
  "banner_class (map_agent_choice c) \<noteq> [] \<and> banner_icon (map_agent_choice c) \<noteq> []
   \<and> (c \<notin> {label_news, label_data, label_policy, label_scout} \<longrightarrow>
        map_agent_choice c =
          \<lparr> selected_agent = Team sustainability_team,
            banner_class = ustr ''sustainability-team-banner'',
            banner_icon = [0x1F310] \<rparr>)
   \<and> distinct radio_options
   \<and> selected_agent (map_agent_choice label_news) = Agent news_analyst
   \<and> selected_agent (map_agent_choice label_data) = Agent data_analyst
   \<and> selected_agent (map_agent_choice label_policy) = Agent policy_reviewer
   \<and> selected_agent (map_agent_choice label_scout) = Agent innovation_scout
   \<and> selected_agent (map_agent_choice label_team) = Team sustainability_team"
  by (simp add: map_agent_choice_def radio_options_def ustr_def label_defs)

theorem map_agent_choice_total_witness:
  "ustr ''Intern'' \<notin> {label_news, label_data, label_policy, label_scout}
   \<and> selected_agent (map_agent_choice (ustr ''Intern'')) = Team sustainability_team"
  using map_agent_choice_total [of "ustr ''Intern''"]
  by (simp add: ustr_def label_defs)

section \<open>The dataset\<close>

lemma parse_written_file: "parse_csv_text (to_csv df_mock) = Inr mock_frame"
  by code_simp

lemma mock_frame_years:
  "column_cells mock_frame (ustr ''Year'') = Some [ustr ''2021'', ustr ''2022'', ustr ''2023'']
   \<and> map parse_int [ustr ''2021'', ustr ''2022'', ustr ''2023''] = [Some 2021, Some 2022, Some 2023]"
  by code_simp

lemma ensure_dataset_absent:
  "fs (data_path dir) = None \<Longrightarrow>
     ensure_dataset dir fs = (fs(data_path dir \<mapsto> to_csv df_mock), [data_path dir])"
  by (simp add: ensure_dataset_def)

lemma ensure_dataset_present:
  "fs (data_path dir) \<noteq> None \<Longrightarrow> ensure_dataset dir fs = (fs, [])"
  by (simp add: ensure_dataset_def)

lemma ensure_dataset_exists_after: "fst (ensure_dataset dir fs) (data_path dir) \<noteq> None"
  by (simp add: ensure_dataset_def)

text \<open>
  Claim C7. Running the bootstrap on the files it has left writes nothing and changes
  nothing; when the file is there at the start nothing is written at all; when it is
  absent, two runs in a row write it exactly once, and the reference reader reads the
  written file as the table with the columns \<open>Year\<close>, \<open>PM2.5\<close> and \<open>CO2\<close>, the
  consecutive years 2021, 2022, 2023 and three rows.
\<close>

theorem ensure_dataset_idempotent:
  "ensure_dataset dir (fst (ensure_dataset dir fs)) = (fst (ensure_dataset dir fs), [])
   \<and> (fs (data_path dir) \<noteq> None \<longrightarrow> ensure_dataset dir fs = (fs, []))
   \<and> (fs (data_path dir) = None \<longrightarrow>
        snd (ensure_dataset dir fs) @ snd (ensure_dataset dir (fst (ensure_dataset dir fs)))
          = [data_path dir]
        \<and> ref_read_csv (fst (ensure_dataset dir fs)) (data_path dir) = Inr mock_frame)
   \<and> header mock_frame = [ustr ''Year'', col_pm25, col_co2]
   \<and> column_cells mock_frame (ustr ''Year'') = Some [ustr ''2021'', ustr ''2022'', ustr ''2023'']
   \<and> map parse_int [ustr ''2021'', ustr ''2022'', ustr ''2023''] = [Some 2021, Some 2022, Some 2023]
   \<and> consecutive [2021, 2022, 2023]
   \<and> 3 \<le> length (body mock_frame)"
proof -
  have twice: "ensure_dataset dir (fst (ensure_dataset dir fs)) = (fst (ensure_dataset dir fs), [])"
    by (rule ensure_dataset_present) (rule ensure_dataset_exists_after)
  have read: "ref_read_csv (fst (ensure_dataset dir fs)) (data_path dir) = Inr mock_frame"
    if "fs (data_path dir) = None"
    using that by (simp add: ensure_dataset_absent ref_read_csv_def parse_written_file)
  have once: "snd (ensure_dataset dir fs) @ snd (ensure_dataset dir (fst (ensure_dataset dir fs)))
                = [data_path dir]"
    if "fs (data_path dir) = None"
    using that twice by (simp add: ensure_dataset_absent)
  have shape: "header mock_frame = [ustr ''Year'', col_pm25, col_co2] \<and> 3 \<le> length (body mock_frame)"
    by (simp add: mock_frame_def col_pm25_def col_co2_def)
  show ?thesis
    using twice read once shape mock_frame_years ensure_dataset_present by simp
qed

theorem ensure_dataset_idempotent_witness:
  "Map.empty (data_path (ustr ''/app'')) = None
   \<and> snd (ensure_dataset (ustr ''/app'') Map.empty)
       @ snd (ensure_dataset (ustr ''/app'') (fst (ensure_dataset (ustr ''/app'') Map.empty)))
       = [data_path (ustr ''/app'')]
   \<and> ref_read_csv (fst (ensure_dataset (ustr ''/app'') Map.empty)) (data_path (ustr ''/app'')) = Inr mock_frame
   \<and> [data_path (ustr ''/app'') \<mapsto> ustr ''kept''] (data_path (ustr ''/app'')) \<noteq> None
   \<and> ensure_dataset (ustr ''/app'') [data_path (ustr ''/app'') \<mapsto> ustr ''kept'']
       = ([data_path (ustr ''/app'') \<mapsto> ustr ''kept''], [])"
proof -
  have absent: "(Map.empty :: filesystem) (data_path (ustr ''/app'')) = None"
    by simp
  have present: "[data_path (ustr ''/app'') \<mapsto> ustr ''kept''] (data_path (ustr ''/app'')) \<noteq> None"
    by simp
  from ensure_dataset_idempotent [of "ustr ''/app''" Map.empty] absent
  have first: "snd (ensure_dataset (ustr ''/app'') Map.empty)
       @ snd (ensure_dataset (ustr ''/app'') (fst (ensure_dataset (ustr ''/app'') Map.empty)))
       = [data_path (ustr ''/app'')]
     \<and> ref_read_csv (fst (ensure_dataset (ustr ''/app'') Map.empty)) (data_path (ustr ''/app'')) = Inr mock_frame"
    by blast
  from ensure_dataset_idempotent [of "ustr ''/app''" "[data_path (ustr ''/app'') \<mapsto> ustr ''kept'']"] present
  have second: "ensure_dataset (ustr ''/app'') [data_path (ustr ''/app'') \<mapsto> ustr ''kept'']
       = ([data_path (ustr ''/app'') \<mapsto> ustr ''kept''], [])"
    by blast
  from absent present first second show ?thesis
    by blast
qed

section \<open>The local analysis\<close>

text \<open>The returned text, and the parts that it contains.\<close>

lemma report_text:
  "report summary trends =
     [0x1F4CA] @ ustr '' **Dataset Summary:**'' @ [0x0A] @ ustr ''```'' @ [0x0A] @
     summary @ [0x0A] @ ustr ''```'' @ [0x0A, 0x0A] @
     ustr ''**Environmental Trends:**'' @ [0x0A] @ join [0x0A] trends"
  by (simp add: report_def)

lemma sublist_report:
  "sublist summary
     ([0x1F4CA] @ ustr '' **Dataset Summary:**'' @ [0x0A] @ ustr ''```'' @ [0x0A] @
      summary @ [0x0A] @ ustr ''```'' @ [0x0A, 0x0A] @
      ustr ''**Environmental Trends:**'' @ [0x0A] @ trends_text)"
  using sublist_between
    [of summary "[0x1F4CA] @ ustr '' **Dataset Summary:**'' @ [0x0A] @ ustr ''```'' @ [0x0A]"
        "[0x0A] @ ustr ''```'' @ [0x0A, 0x0A] @ ustr ''**Environmental Trends:**'' @ [0x0A] @ trends_text"]
  by simp

lemma sublist_inside:
  assumes "sublist l ys"
  shows "sublist l (before @ ys @ after)"
proof -
  from assms obtain ps ss where "ys = ps @ l @ ss"
    unfolding sublist_def by blast
  then have "before @ ys @ after = (before @ ps) @ l @ (ss @ after)"
    by simp
  then show ?thesis
    unfolding sublist_def by blast
qed

lemma sublist_join: "l \<in> set ls \<Longrightarrow> sublist l (join sep ls)"
proof (induction sep ls rule: join.induct)
  case (1 sep)
  then show ?case
    by simp
next
  case (2 sep x)
  then show ?case
    by simp
next
  case (3 sep x y ys)
  show ?case
  proof (cases "l = x")
    case True
    then show ?thesis
      using sublist_between [of x "[]" "sep @ join sep (y # ys)"] by simp
  next
    case False
    with 3 have "sublist l (join sep (y # ys))"
      by simp
    from sublist_inside [OF this, of "x @ sep" "[]"] show ?thesis
      by simp
  qed
qed

lemma sublist_trend_line:
  assumes "l \<in> set trends"
  shows "sublist l
     ([0x1F4CA] @ ustr '' **Dataset Summary:**'' @ [0x0A] @ ustr ''```'' @ [0x0A] @
      summary @ [0x0A] @ ustr ''```'' @ [0x0A, 0x0A] @
      ustr ''**Environmental Trends:**'' @ [0x0A] @ join [0x0A] trends)"
proof -
  from sublist_inside [OF sublist_join [OF assms, of "[0x0A]"],
      of "[0x1F4CA] @ ustr '' **Dataset Summary:**'' @ [0x0A] @ ustr ''```'' @ [0x0A] @
          summary @ [0x0A] @ ustr ''```'' @ [0x0A, 0x0A] @
          ustr ''**Environmental Trends:**'' @ [0x0A]" "[]"]
  show ?thesis
    by simp
qed

text \<open>
  Claim C5, as the code has it. When the dataset, the file \<open>sample_air_quality.csv\<close>
  beside the script, loads, the statistics table can be computed and so can the mean of
  each target column that is present,
  \<open>analyze_dataset\<close> returns the report: the heading, the statistics table as the
  library prints it, the heading of the trends and then the trend lines joined by line
  feeds. The list of trend lines holds the PM2.5 line exactly when the table has the
  column \<open>PM2.5\<close> and the CO2 line exactly when it has the column \<open>CO2\<close>, in this
  order, so it has between none and two lines, and the table and each of these lines are
  part of the returned text. Nothing is asked of a column that is absent.
\<close>

theorem analyze_dataset_report:
  assumes "read_csv lib fs (dir @ ustr ''/sample_air_quality.csv'') = Inr df"
    and "describe_to_string lib df = Inr summary"
    and "ustr ''PM2.5'' \<in> set (columns lib df) \<longrightarrow> mean_2f lib df (ustr ''PM2.5'') = Inr m1"
    and "ustr ''CO2'' \<in> set (columns lib df) \<longrightarrow> mean_2f lib df (ustr ''CO2'') = Inr m2"
  shows "let pm = [0x1F32B, 0xFE0F] @ ustr '' **Average PM2.5:** '' @ m1 @ ustr '' '' @ [0x3BC] @
                  ustr ''g/m'' @ [0xB3];
             co = [0x1F30D] @ ustr '' **Average CO2:** '' @ m2 @ ustr '' ppm'';
             trends = (if ustr ''PM2.5'' \<in> set (columns lib df) then [pm] else []) @
                      (if ustr ''CO2'' \<in> set (columns lib df) then [co] else []);
             out = [0x1F4CA] @ ustr '' **Dataset Summary:**'' @ [0x0A] @ ustr ''```'' @ [0x0A] @
                   summary @ [0x0A] @ ustr ''```'' @ [0x0A, 0x0A] @
                   ustr ''**Environmental Trends:**'' @ [0x0A] @ join [0x0A] trends
         in analyze_dataset lib fs dir = Inr out
            \<and> sublist summary out
            \<and> (ustr ''PM2.5'' \<in> set (columns lib df) \<longrightarrow> sublist pm out)
            \<and> (ustr ''CO2'' \<in> set (columns lib df) \<longrightarrow> sublist co out)
            \<and> (pm \<in> set trends \<longleftrightarrow> ustr ''PM2.5'' \<in> set (columns lib df))
            \<and> (co \<in> set trends \<longleftrightarrow> ustr ''CO2'' \<in> set (columns lib df))
            \<and> length trends \<le> 2
            \<and> join [0x0A] trends =
                (if ustr ''PM2.5'' \<in> set (columns lib df)
                 then (if ustr ''CO2'' \<in> set (columns lib df) then pm @ [0x0A] @ co else pm)
                 else (if ustr ''CO2'' \<in> set (columns lib df) then co else []))"
proof -
  let ?pm = "[0x1F32B, 0xFE0F] @ ustr '' **Average PM2.5:** '' @ m1 @ ustr '' '' @ [0x3BC] @
             ustr ''g/m'' @ [0xB3]"
  let ?co = "[0x1F30D] @ ustr '' **Average CO2:** '' @ m2 @ ustr '' ppm''"
  let ?trends = "(if ustr ''PM2.5'' \<in> set (columns lib df) then [?pm] else []) @
                 (if ustr ''CO2'' \<in> set (columns lib df) then [?co] else [])"
  have lines: "trend_lines lib df = Inr ?trends"
    using assms(3,4)
    by (simp add: trend_lines_def col_pm25_def col_co2_def pm25_line_def co2_line_def)
  have result: "analyze_dataset lib fs dir = Inr (report summary ?trends)"
    using assms(1,2) lines by (simp add: analyze_dataset_def data_path_def)
  have table: "sublist summary (report summary ?trends)"
    unfolding report_text by (rule sublist_report)
  have pm_shown: "sublist ?pm (report summary ?trends)"
    if "ustr ''PM2.5'' \<in> set (columns lib df)"
    unfolding report_text using that by (intro sublist_trend_line) simp
  have co_shown: "sublist ?co (report summary ?trends)"
    if "ustr ''CO2'' \<in> set (columns lib df)"
    unfolding report_text using that by (intro sublist_trend_line) simp
  have differ: "?pm \<noteq> ?co"
    by simp
  have pm_listed: "?pm \<in> set ?trends \<longleftrightarrow> ustr ''PM2.5'' \<in> set (columns lib df)"
    using differ by auto
  have co_listed: "?co \<in> set ?trends \<longleftrightarrow> ustr ''CO2'' \<in> set (columns lib df)"
    using differ by auto
  have count: "length ?trends \<le> 2"
    by simp
  have joined: "join [0x0A] ?trends =
                (if ustr ''PM2.5'' \<in> set (columns lib df)
                 then (if ustr ''CO2'' \<in> set (columns lib df) then ?pm @ [0x0A] @ ?co else ?pm)
                 else (if ustr ''CO2'' \<in> set (columns lib df) then ?co else []))"
    by simp
  from result table pm_shown co_shown pm_listed co_listed count joined
  show ?thesis
    unfolding Let_def report_text by blast
qed

subsection \<open>The analysis of two concrete files\<close>

lemma read_written_file:
  "read_csv (ref_pandas fake_describe mean_2f_exact)
     [data_path (ustr ''/app'') \<mapsto> to_csv df_mock] (data_path (ustr ''/app'')) = Inr mock_frame"
  by code_simp

text \<open>The mean of a column in which every field is an integer.\<close>

lemma ref_mean_2f_ints:
  assumes cells: "column_cells df c = Some cells"
    and filled: "[] \<notin> set cells"
    and ints: "map parse_int cells = map Some xs"
  shows "ref_mean_2f fmt df c = Inr (fmt xs)"
proof -
  have present: "filter (\<lambda>x. x \<noteq> []) cells = cells"
    using filled by (induction cells) auto
  have "parse_int x \<noteq> None" if "x \<in> set cells" for x
  proof -
    from that have "parse_int x \<in> set (map parse_int cells)"
      by simp
    with ints show ?thesis
      by auto
  qed
  then have parsed: "list_all (\<lambda>x. parse_int x \<noteq> None) cells"
    by (simp add: list_all_iff)
  have "map (\<lambda>x. the (parse_int x)) cells = map the (map parse_int cells)"
    by simp
  also have "\<dots> = xs"
    unfolding ints by (simp add: comp_def)
  finally have ints_of: "map (\<lambda>x. the (parse_int x)) cells = xs" .
  from parsed show ?thesis
    by (simp add: ref_mean_2f_def cells present ints_of)
qed

lemma mock_frame_cells:
  "column_cells mock_frame (ustr ''PM2.5'') = Some [ustr ''55'', ustr ''48'', ustr ''42'']"
  "column_cells mock_frame (ustr ''CO2'') = Some [ustr ''400'', ustr ''395'', ustr ''390'']"
  by code_simp+

lemma parse_int_cells:
  "map parse_int [ustr ''55'', ustr ''48'', ustr ''42''] = map Some [55, 48, 42]"
  "map parse_int [ustr ''400'', ustr ''395'', ustr ''390''] = map Some [400, 395, 390]"
  "map parse_int [ustr ''55'', ustr ''48''] = map Some [55, 48]"
  by code_simp+

lemma mean_pm25: "mean_2f_exact [55, 48, 42] = ustr ''48.33''"
proof -
  have s: "sum_list [55, 48, 42 :: int] = 145"
    by simp
  have n: "length [55, 48, 42 :: int] = 3"
    by simp
  have a: "100 * nat (abs (145 :: int)) = 14500"
    by simp
  have d: "(14500 :: nat) div 3 = 4833" "(14500 :: nat) mod 3 = 1"
    by simp_all
  show ?thesis
    unfolding mean_2f_exact_def Let_def s n a d
    by (simp add: two_digits_def str_nat.simps ustr_def)
qed

lemma mean_co2: "mean_2f_exact [400, 395, 390] = ustr ''395.00''"
proof -
  have s: "sum_list [400, 395, 390 :: int] = 1185"
    by simp
  have n: "length [400, 395, 390 :: int] = 3"
    by simp
  have a: "100 * nat (abs (1185 :: int)) = 118500"
    by simp
  have d: "(118500 :: nat) div 3 = 39500" "(118500 :: nat) mod 3 = 0"
    by simp_all
  show ?thesis
    unfolding mean_2f_exact_def Let_def s n a d
    by (simp add: two_digits_def str_nat.simps ustr_def)
qed

lemma mean_two_rows: "mean_2f_exact [55, 48] = ustr ''51.50''"
proof -
  have s: "sum_list [55, 48 :: int] = 103"
    by simp
  have n: "length [55, 48 :: int] = 2"
    by simp
  have a: "100 * nat (abs (103 :: int)) = 10300"
    by simp
  have d: "(10300 :: nat) div 2 = 5150" "(10300 :: nat) mod 2 = 0"
    by simp_all
  show ?thesis
    unfolding mean_2f_exact_def Let_def s n a d
    by (simp add: two_digits_def str_nat.simps ustr_def)
qed

lemma mock_frame_means:
  "mean_2f (ref_pandas fake_describe mean_2f_exact) mock_frame (ustr ''PM2.5'') = Inr (ustr ''48.33'')"
  "mean_2f (ref_pandas fake_describe mean_2f_exact) mock_frame (ustr ''CO2'') = Inr (ustr ''395.00'')"
proof -
  have "ref_mean_2f mean_2f_exact mock_frame (ustr ''PM2.5'') = Inr (mean_2f_exact [55, 48, 42])"
    by (rule ref_mean_2f_ints [OF mock_frame_cells(1) _ parse_int_cells(1)])
      (simp add: ustr_def)
  then show "mean_2f (ref_pandas fake_describe mean_2f_exact) mock_frame (ustr ''PM2.5'')
               = Inr (ustr ''48.33'')"
    by (simp add: ref_pandas_def mean_pm25)
  have "ref_mean_2f mean_2f_exact mock_frame (ustr ''CO2'') = Inr (mean_2f_exact [400, 395, 390])"
    by (rule ref_mean_2f_ints [OF mock_frame_cells(2) _ parse_int_cells(2)])
      (simp add: ustr_def)
  then show "mean_2f (ref_pandas fake_describe mean_2f_exact) mock_frame (ustr ''CO2'')
               = Inr (ustr ''395.00'')"
    by (simp add: ref_pandas_def mean_co2)
qed

lemma mock_frame_described:
  "describe_to_string (ref_pandas fake_describe mean_2f_exact) mock_frame = Inr (ustr ''count  3'')"
  by (simp add: ref_pandas_def fake_describe_def mock_frame_def str_nat.simps ustr_def)

lemma mock_frame_columns:
  "ustr ''PM2.5'' \<in> set (columns (ref_pandas fake_describe mean_2f_exact) mock_frame)"
  "ustr ''CO2'' \<in> set (columns (ref_pandas fake_describe mean_2f_exact) mock_frame)"
  by (simp_all add: ref_pandas_def mock_frame_def)

lemma read_no_co2_file:
  "read_csv (ref_pandas fake_describe mean_2f_exact)
     [data_path (ustr ''/app'') \<mapsto> no_co2_csv] (data_path (ustr ''/app'')) = Inr no_co2_frame"
  by code_simp

lemma no_co2_cells:
  "column_cells no_co2_frame (ustr ''PM2.5'') = Some [ustr ''55'', ustr ''48'']"
  by code_simp

lemma no_co2_mean:
  "mean_2f (ref_pandas fake_describe mean_2f_exact) no_co2_frame (ustr ''PM2.5'') = Inr (ustr ''51.50'')"
proof -
  have "ref_mean_2f mean_2f_exact no_co2_frame (ustr ''PM2.5'') = Inr (mean_2f_exact [55, 48])"
    by (rule ref_mean_2f_ints [OF no_co2_cells _ parse_int_cells(3)]) (simp add: ustr_def)
  then show ?thesis
    by (simp add: ref_pandas_def mean_two_rows)
qed

lemma no_co2_described:
  "describe_to_string (ref_pandas fake_describe mean_2f_exact) no_co2_frame = Inr (ustr ''count  2'')"
  by (simp add: ref_pandas_def fake_describe_def no_co2_frame_def str_nat.simps ustr_def)

lemma no_co2_columns:
  "ustr ''PM2.5'' \<in> set (columns (ref_pandas fake_describe mean_2f_exact) no_co2_frame)"
  "ustr ''CO2'' \<notin> set (columns (ref_pandas fake_describe mean_2f_exact) no_co2_frame)"
  by (simp_all add: ref_pandas_def no_co2_frame_def ustr_def)

theorem analyze_dataset_report_witness:
  "analyze_dataset (ref_pandas fake_describe mean_2f_exact)
     [data_path (ustr ''/app'') \<mapsto> to_csv df_mock] (ustr ''/app'') =
   Inr ([0x1F4CA] @ ustr '' **Dataset Summary:**'' @ [0x0A] @ ustr ''```'' @ [0x0A] @
        ustr ''count  3'' @ [0x0A] @ ustr ''```'' @ [0x0A, 0x0A] @
        ustr ''**Environmental Trends:**'' @ [0x0A] @
        [0x1F32B, 0xFE0F] @ ustr '' **Average PM2.5:** 48.33 '' @ [0x3BC] @ ustr ''g/m'' @ [0xB3] @
        [0x0A] @
        [0x1F30D] @ ustr '' **Average CO2:** 395.00 ppm'')
   \<and> analyze_dataset (ref_pandas fake_describe mean_2f_exact)
       [data_path (ustr ''/app'') \<mapsto> no_co2_csv] (ustr ''/app'') =
     Inr ([0x1F4CA] @ ustr '' **Dataset Summary:**'' @ [0x0A] @ ustr ''```'' @ [0x0A] @
          ustr ''count  2'' @ [0x0A] @ ustr ''```'' @ [0x0A, 0x0A] @
          ustr ''**Environmental Trends:**'' @ [0x0A] @
          [0x1F32B, 0xFE0F] @ ustr '' **Average PM2.5:** 51.50 '' @ [0x3BC] @ ustr ''g/m'' @ [0xB3])"
proof -
  have both: "analyze_dataset (ref_pandas fake_describe mean_2f_exact)
       [data_path (ustr ''/app'') \<mapsto> to_csv df_mock] (ustr ''/app'') =
     Inr ([0x1F4CA] @ ustr '' **Dataset Summary:**'' @ [0x0A] @ ustr ''```'' @ [0x0A] @
          ustr ''count  3'' @ [0x0A] @ ustr ''```'' @ [0x0A, 0x0A] @
          ustr ''**Environmental Trends:**'' @ [0x0A] @
          ([0x1F32B, 0xFE0F] @ ustr '' **Average PM2.5:** '' @ ustr ''48.33'' @ ustr '' '' @ [0x3BC] @
           ustr ''g/m'' @ [0xB3]) @ [0x0A] @
          ([0x1F30D] @ ustr '' **Average CO2:** '' @ ustr ''395.00'' @ ustr '' ppm''))"
    using analyze_dataset_report
      [where lib = "ref_pandas fake_describe mean_2f_exact" and df = mock_frame
         and fs = "[data_path (ustr ''/app'') \<mapsto> to_csv df_mock]" and dir = "ustr ''/app''"
         and summary = "ustr ''count  3''" and ?m1.0 = "ustr ''48.33''" and ?m2.0 = "ustr ''395.00''"]
      read_written_file mock_frame_described mock_frame_means mock_frame_columns
    by (simp add: Let_def data_path_def)
  have one: "analyze_dataset (ref_pandas fake_describe mean_2f_exact)
       [data_path (ustr ''/app'') \<mapsto> no_co2_csv] (ustr ''/app'') =
     Inr ([0x1F4CA] @ ustr '' **Dataset Summary:**'' @ [0x0A] @ ustr ''```'' @ [0x0A] @
          ustr ''count  2'' @ [0x0A] @ ustr ''```'' @ [0x0A, 0x0A] @
          ustr ''**Environmental Trends:**'' @ [0x0A] @
          ([0x1F32B, 0xFE0F] @ ustr '' **Average PM2.5:** '' @ ustr ''51.50'' @ ustr '' '' @ [0x3BC] @
           ustr ''g/m'' @ [0xB3]))"
    using analyze_dataset_report
      [where lib = "ref_pandas fake_describe mean_2f_exact" and df = no_co2_frame
         and fs = "[data_path (ustr ''/app'') \<mapsto> no_co2_csv]" and dir = "ustr ''/app''"
         and summary = "ustr ''count  2''" and ?m1.0 = "ustr ''51.50''" and ?m2.0 = "[]"]
      read_no_co2_file no_co2_described no_co2_mean no_co2_columns
    by (simp add: Let_def data_path_def)
  from both one show ?thesis
    by (simp add: ustr_def)
qed

text \<open>
  Claim C5 as stated fails: a file whose \<open>PM2.5\<close> column holds words loads, and the
  mean of that column raises \<open>TypeError\<close>, so there is no report.
\<close>

theorem text_column_counterexample:
  "read_csv (ref_pandas fake_describe mean_2f_exact)
     [data_path (ustr ''/app'') \<mapsto> words_csv] (data_path (ustr ''/app'')) =
     Inr \<lparr> header = [ustr ''Year'', ustr ''PM2.5''],
           body = [[ustr ''2021'', ustr ''high''], [ustr ''2022'', ustr ''low'']] \<rparr>
   \<and> analyze_dataset (ref_pandas fake_describe mean_2f_exact)
       [data_path (ustr ''/app'') \<mapsto> words_csv] (ustr ''/app'') =
     Inl (TypeError (ustr ''Could not convert highlow to numeric''))"
  by code_simp

section \<open>The team and the environment\<close>











lemma key_not_in_message:
  "\<not> sublist GROQ_API_KEY (ustr ''str expected, not NoneType'')"
proof
  assume "sublist GROQ_API_KEY (ustr ''str expected, not NoneType'')"
  then have "set GROQ_API_KEY \<subseteq> set (ustr ''str expected, not NoneType'')"
    by (rule set_mono_sublist)
  then show False
    by (simp add: GROQ_API_KEY_def ustr_def)
qed

text \<open>When the credential is defined, lines 17-18 leave the environment as it is.\<close>

lemma present_credential_unchanged:
  "load_dotenv dotenv env GROQ_API_KEY = Some v \<Longrightarrow>
     load_environment dotenv env = Inr (load_dotenv dotenv env)"
  by (auto simp add: load_environment_def environ_setitem_def os_getenv_def)

text \<open>
  Claim C9. The script looks the credential up and writes the result back without
  testing it. When neither the environment nor the \<open>.env\<close> file defines it, the write
  raises the \<open>TypeError\<close> of \<open>os.environ\<close>, "str expected, not NoneType", which does
  not name the variable; the script ends there, and nothing has been shown to the user
  and nothing written.
\<close>

theorem missing_credential_not_validated:
  assumes "load_dotenv dotenv env GROQ_API_KEY = None"
  shows "load_environment dotenv env = Inl (TypeError (ustr ''str expected, not NoneType''))
         \<and> page dotenv env pressed i =
             \<lparr> environ_after = load_dotenv dotenv env, files_after = files i, written = [],
               team_after = None, page_effects = [],
               raised = Some (TypeError (ustr ''str expected, not NoneType'')) \<rparr>
         \<and> \<not> sublist GROQ_API_KEY (exn_str (TypeError (ustr ''str expected, not NoneType'')))"
  using assms key_not_in_message
  by (simp add: load_environment_def environ_setitem_def os_getenv_def page_def TypeError_def)

theorem missing_credential_not_validated_witness:
  "load_dotenv Map.empty Map.empty GROQ_API_KEY = None
   \<and> load_environment Map.empty Map.empty = Inl (TypeError (ustr ''str expected, not NoneType''))
   \<and> page_effects (page Map.empty Map.empty True
        (example_inputs (run_returns None_result) label_news (ustr ''Karachi'') Map.empty)) = []
   \<and> raised (page Map.empty Map.empty True
        (example_inputs (run_returns None_result) label_news (ustr ''Karachi'') Map.empty))
       = Some (TypeError (ustr ''str expected, not NoneType''))"
  using missing_credential_not_validated [of Map.empty Map.empty True
      "example_inputs (run_returns None_result) label_news (ustr ''Karachi'') Map.empty"]
  by (simp add: load_dotenv_def)

end
